theory Spec2Isabelle
  imports Main "HOL-Library.Word" "HOL-Library.AList"
begin

section \<open>JavaScript values\<close>

text \<open>
  A JavaScript string is a sequence of UTF-16 code units; \<open>length\<close> counts code units,
  as the \<open>.length\<close> property does. String literals of the source are ASCII and are
  written \<open>lit ''...''\<close>. Property names are identifiers of the program text and are
  kept as plain strings.
\<close>

type_synonym cu = "16 word"
type_synonym jsstring = "cu list"

definition lit :: "string \<Rightarrow> jsstring" where
  "lit s = map of_char s"

text \<open>
  Values as they arrive from JSON or from the DOM. Numbers are the integers from
  \<open>-2^53\<close> to \<open>2^53 - 1\<close>, read with \<open>sint\<close>: each of them is a double, and
  \<open>String\<close> prints it in plain decimal. Fractions, larger numbers and NaN are not
  values of the model. An object lists its own properties in order.
\<close>

datatype jsval =
    JUndefined
  | JNull
  | JBool bool
  | JNum "54 word"
  | JStr jsstring
  | JArr "jsval list"
  | JObj "(string \<times> jsval) list"

type_synonym jsobj = "(string \<times> jsval) list"

text \<open>Truthiness: what \<open>if (v)\<close>, \<open>!v\<close>, \<open>a || b\<close> and \<open>a && b\<close> test.\<close>

fun truthy :: "jsval \<Rightarrow> bool" where
  "truthy JUndefined = False"
| "truthy JNull = False"
| "truthy (JBool b) = b"
| "truthy (JNum n) = (n \<noteq> 0)"
| "truthy (JStr s) = (s \<noteq> [])"
| "truthy (JArr xs) = True"
| "truthy (JObj kvs) = True"

text \<open>\<open>a || b\<close> yields the left operand when it is truthy, the right one otherwise.\<close>

definition js_or :: "jsval \<Rightarrow> jsval \<Rightarrow> jsval" where
  "js_or a b = (if truthy a then a else b)"

text \<open>
  \<open>a === b\<close> for two values that come from different responses: numbers, strings,
  booleans, \<open>null\<close> and \<open>undefined\<close> are compared by value; an array or an object
  is identical only to itself, so never to a value of another response. \<open>a !== b\<close>
  is the negation.
\<close>

definition primitive :: "jsval \<Rightarrow> bool" where
  "primitive v = (case v of JArr xs \<Rightarrow> False | JObj kvs \<Rightarrow> False | _ \<Rightarrow> True)"

definition strict_eq :: "jsval \<Rightarrow> jsval \<Rightarrow> bool" where
  "strict_eq a b = (primitive a \<and> a = b)"

definition nullish :: "jsval \<Rightarrow> bool" where
  "nullish v = (v = JUndefined \<or> v = JNull)"

text \<open>
  \<open>v.k\<close> for a data property \<open>k\<close>: the stored value for an object that has it,
  \<open>undefined\<close> otherwise. On \<open>undefined\<close> and \<open>null\<close> the read throws a
  TypeError; callers test \<open>nullish\<close> first where the source can throw, and \<open>optchain\<close>
  is the optional chain \<open>v?.k\<close>.
\<close>

fun getprop :: "jsval \<Rightarrow> string \<Rightarrow> jsval" where
  "getprop (JObj kvs) k = (case map_of kvs k of Some v \<Rightarrow> v | None \<Rightarrow> JUndefined)"
| "getprop _ k = JUndefined"

definition optchain :: "jsval \<Rightarrow> string \<Rightarrow> jsval" where
  "optchain v k = (if nullish v then JUndefined else getprop v k)"

section \<open>Strings: trim and the email pattern\<close>

text \<open>
  White space and line terminators of ECMAScript: the characters \<open>String.prototype.trim\<close>
  strips and the class \<open>\s\<close> matches.
\<close>

definition is_ws :: "cu \<Rightarrow> bool" where
  "is_ws c = (c \<in> set [0x9, 0xA, 0xB, 0xC, 0xD, 0x20, 0xA0, 0x1680,
                         0x2028, 0x2029, 0x202F, 0x205F, 0x3000, 0xFEFF]
             \<or> (0x2000 \<le> c \<and> c \<le> 0x200A))"

definition trim :: "jsstring \<Rightarrow> jsstring" where
  "trim s = rev (dropWhile is_ws (rev (dropWhile is_ws s)))"

text \<open>
  Regular expressions without captures: matching a whole string (\<open>^...$\<close>) is
  membership in the language, decided by taking derivatives code unit by code unit.
\<close>

datatype regex =
    Fail
  | Empty
  | Class "cu \<Rightarrow> bool"
  | Then regex regex
  | Or regex regex
  | Many regex

definition OneOrMore :: "regex \<Rightarrow> regex" where
  "OneOrMore r = Then r (Many r)"

fun accepts_empty :: "regex \<Rightarrow> bool" where
  "accepts_empty Fail = False"
| "accepts_empty Empty = True"
| "accepts_empty (Class p) = False"
| "accepts_empty (Then r s) = (accepts_empty r \<and> accepts_empty s)"
| "accepts_empty (Or r s) = (accepts_empty r \<or> accepts_empty s)"
| "accepts_empty (Many r) = True"

fun after :: "cu \<Rightarrow> regex \<Rightarrow> regex" where
  "after c Fail = Fail"
| "after c Empty = Fail"
| "after c (Class p) = (if p c then Empty else Fail)"
| "after c (Then r s) =
     (if accepts_empty r then Or (Then (after c r) s) (after c s)
      else Then (after c r) s)"
| "after c (Or r s) = Or (after c r) (after c s)"
| "after c (Many r) = Then (after c r) (Many r)"

fun test :: "regex \<Rightarrow> jsstring \<Rightarrow> bool" where
  "test r [] = accepts_empty r"
| "test r (c # cs) = test (after c r) cs"

text \<open>\<open>const emailRegex = /^[^\s@]+@[^\s@]+\.[^\s@]+$/;\<close>\<close>

definition not_space_at :: "cu \<Rightarrow> bool" where
  "not_space_at c = (\<not> is_ws c \<and> c \<noteq> 0x40)"

definition emailRegex :: regex where
  "emailRegex =
     Then (OneOrMore (Class not_space_at))
       (Then (Class (\<lambda>c. c = 0x40))
         (Then (OneOrMore (Class not_space_at))
           (Then (Class (\<lambda>c. c = 0x2E))
             (OneOrMore (Class not_space_at)))))"


section \<open>Conversion to strings\<close>

text \<open>
  \<open>String(v)\<close>, as \<open>localStorage.setItem\<close> and \<open>Array.prototype.join\<close> apply
  it. \<open>join\<close> writes \<open>undefined\<close> and \<open>null\<close> elements as the empty string.
\<close>

fun digits_of :: "nat \<Rightarrow> string" where
  "digits_of n =
     (if n < 10 then [char_of (48 + n)]
      else digits_of (n div 10) @ [char_of (48 + n mod 10)])"

declare digits_of.simps [simp del]

fun sep_join :: "jsstring \<Rightarrow> jsstring list \<Rightarrow> jsstring" where
  "sep_join sep [] = []"
| "sep_join sep [x] = x"
| "sep_join sep (x # y # ys) = x @ sep @ sep_join sep (y # ys)"

fun to_string :: "jsval \<Rightarrow> jsstring" where
  "to_string JUndefined = lit ''undefined''"
| "to_string JNull = lit ''null''"
| "to_string (JBool b) = (if b then lit ''true'' else lit ''false'')"
| "to_string (JNum n) =
     (if sint n < 0 then lit ''-'' @ lit (digits_of (nat (- sint n)))
      else lit (digits_of (nat (sint n))))"
| "to_string (JStr s) = s"
| "to_string (JArr xs) =
     sep_join (lit '','') (map (\<lambda>v. if v = JUndefined \<or> v = JNull then [] else to_string v) xs)"
| "to_string (JObj kvs) = lit ''[object Object]''"

definition join :: "jsval list \<Rightarrow> jsstring \<Rightarrow> jsstring" where
  "join xs sep = sep_join sep (map (\<lambda>v. if nullish v then [] else to_string v) xs)"

text \<open>
  \<open>Object.keys(v)\<close> and \<open>v[key]\<close> for the keys it lists: the property names of an
  object, the indices of an array or of a string, nothing for the other values.
\<close>

fun keys :: "jsval \<Rightarrow> string list" where
  "keys (JObj kvs) = remdups (map fst kvs)"
| "keys (JArr xs) = map digits_of [0..<length xs]"
| "keys (JStr s) = map digits_of [0..<length s]"
| "keys _ = []"

fun at_key :: "jsval \<Rightarrow> string \<Rightarrow> jsval" where
  "at_key (JArr xs) k =
     (case find (\<lambda>i. digits_of i = k) [0..<length xs] of Some i \<Rightarrow> xs ! i | None \<Rightarrow> JUndefined)"
| "at_key (JStr s) k =
     (case find (\<lambda>i. digits_of i = k) [0..<length s] of Some i \<Rightarrow> JStr [s ! i] | None \<Rightarrow> JUndefined)"
| "at_key v k = getprop v k"

definition isArray :: "jsval \<Rightarrow> bool" where
  "isArray v = (case v of JArr xs \<Rightarrow> True | _ \<Rightarrow> False)"

text \<open>\<open>obj[k] = v\<close> on an object under construction, and \<open>{...obj, [k]: v}\<close>.\<close>

definition set_prop :: "string \<Rightarrow> jsval \<Rightarrow> jsobj \<Rightarrow> jsobj" where
  "set_prop k v obj = AList.update k v obj"

section \<open>Requests and their outcomes\<close>

text \<open>
  An awaited API call either resolves with the response object, of which the pages
  read \<open>response.data\<close>, or rejects with an error, of which they read
  \<open>error.response\<close>: absent when no response was received. A handler that awaits a
  call takes the outcome of the call as an argument and runs to its end.
\<close>

record http_response =
  data :: jsval

record api_error =
  response :: "http_response option"

datatype outcome = Resolved http_response | Rejected api_error

text \<open>\<open>error.response?.data\<close>\<close>

definition response_data :: "api_error \<Rightarrow> jsval" where
  "response_data error = (case response error of None \<Rightarrow> JUndefined | Some r \<Rightarrow> data r)"

section \<open>What every page has\<close>

text \<open>
  The browser's local storage, the router's current path (\<open>navigate\<close> sets it) and
  the \<open>isLoading\<close> flag that each of the three pages keeps.
\<close>

type_synonym storage = "jsstring \<rightharpoonup> jsstring"

record page =
  isLoading :: bool
  localStorage :: storage
  location :: jsstring

definition getItem :: "jsstring \<Rightarrow> 'a page_scheme \<Rightarrow> jsval" where
  "getItem k st = (case localStorage st k of None \<Rightarrow> JNull | Some v \<Rightarrow> JStr v)"

definition setItem :: "jsstring \<Rightarrow> jsval \<Rightarrow> 'a page_scheme \<Rightarrow> 'a page_scheme" where
  "setItem k v st = st\<lparr>localStorage := (localStorage st)(k \<mapsto> to_string v)\<rparr>"

definition removeItem :: "jsstring \<Rightarrow> 'a page_scheme \<Rightarrow> 'a page_scheme" where
  "removeItem k st = st\<lparr>localStorage := (localStorage st)(k := None)\<rparr>"

definition navigate :: "jsstring \<Rightarrow> 'a page_scheme \<Rightarrow> 'a page_scheme" where
  "navigate path st = st\<lparr>location := path\<rparr>"

text \<open>The credentials both forms hold, and a form page: its fields and its error object.\<close>

record credentials =
  username :: jsstring
  password :: jsstring

record 'f form_page = page +
  formData :: 'f
  errors :: jsobj

section \<open>Register.jsx\<close>

record register_form = credentials +
  email :: jsstring
  first_name :: jsstring
  last_name :: jsstring
  password2 :: jsstring

text \<open>
  The page's state, the \<open>register\<close> requests it has sent (each with the form data
  passed), and the redirects it has scheduled with \<open>setTimeout\<close> (delay, path).
\<close>

record register_page = "register_form form_page" +
  success :: jsstring
  register_calls :: "register_form list"
  timeouts :: "(nat \<times> jsstring) list"

definition Register :: "storage \<Rightarrow> register_page" where
  "Register ls =
     \<lparr> isLoading = False, localStorage = ls, location = lit ''/register'',
       formData = \<lparr> username = [], password = [], email = [], first_name = [],
                    last_name = [], password2 = [] \<rparr>,
       errors = [], success = [], register_calls = [], timeouts = [] \<rparr>"

text \<open>\<open>setFormData((prev) => ({ ...prev, [name]: value }))\<close> for the six inputs of the form.\<close>

definition set_register_field :: "string \<Rightarrow> jsstring \<Rightarrow> register_form \<Rightarrow> register_form" where
  "set_register_field name v fd =
     (if name = ''username'' then fd\<lparr>username := v\<rparr>
      else if name = ''email'' then fd\<lparr>email := v\<rparr>
      else if name = ''first_name'' then fd\<lparr>first_name := v\<rparr>
      else if name = ''last_name'' then fd\<lparr>last_name := v\<rparr>
      else if name = ''password'' then fd\<lparr>password := v\<rparr>
      else if name = ''password2'' then fd\<lparr>password2 := v\<rparr>
      else fd)"

definition handleChange_register :: "string \<Rightarrow> jsstring \<Rightarrow> register_page \<Rightarrow> register_page" where
  "handleChange_register name v st =
     (let st = st\<lparr>formData := set_register_field name v (formData st)\<rparr>
      in if truthy (getprop (JObj (errors st)) name)
         then st\<lparr>errors := set_prop name (JStr []) (errors st)\<rparr>
         else st)"

text \<open>
  \<open>validateForm\<close> builds \<open>newErrors\<close> check by check, stores it with \<open>setErrors\<close>
  and returns whether it has no key. The model returns the object and the flag.
\<close>

definition validateForm_register :: "register_form \<Rightarrow> jsobj \<times> bool" where
  "validateForm_register fd =
     (let newErrors = [];
          newErrors =
            (if trim (username fd) = []
               then set_prop ''username'' (JStr (lit ''Username is required'')) newErrors
             else if length (username fd) < 3
               then set_prop ''username'' (JStr (lit ''At least 3 characters'')) newErrors
             else newErrors);
          newErrors =
            (if trim (email fd) = []
               then set_prop ''email'' (JStr (lit ''Email is required'')) newErrors
             else if \<not> test emailRegex (email fd)
               then set_prop ''email'' (JStr (lit ''Enter a valid email'')) newErrors
             else newErrors);
          newErrors =
            (if password fd = []
               then set_prop ''password'' (JStr (lit ''Password is required'')) newErrors
             else if length (password fd) < 8
               then set_prop ''password'' (JStr (lit ''At least 8 characters'')) newErrors
             else newErrors);
          newErrors =
            (if password2 fd = []
               then set_prop ''password2'' (JStr (lit ''Confirm your password'')) newErrors
             else if password fd \<noteq> password2 fd
               then set_prop ''password2'' (JStr (lit ''Passwords do not match'')) newErrors
             else newErrors)
      in (newErrors, length (keys (JObj newErrors)) = 0))"

text \<open>The \<open>catch\<close> branch of \<open>handleSubmit\<close>: the error object built from the failure.\<close>

definition register_failure_errors :: "api_error \<Rightarrow> jsobj" where
  "register_failure_errors error =
     (if truthy (response_data error) then
        (let apiErrors = response_data error
         in foldl (\<lambda>formatted key.
                     set_prop key
                       (if isArray (at_key apiErrors key)
                        then JStr (join (case at_key apiErrors key of JArr xs \<Rightarrow> xs | _ \<Rightarrow> [])
                                     (lit '', ''))
                        else at_key apiErrors key)
                       formatted)
              [] (keys apiErrors))
      else [(''general'', JStr (lit ''Unable to connect. Please try again.''))])"

definition handleSubmit_register :: "outcome \<Rightarrow> register_page \<Rightarrow> register_page" where
  "handleSubmit_register result st =
     (let (newErrors, ok) = validateForm_register (formData st);
          st = st\<lparr>errors := newErrors\<rparr>
      in if \<not> ok then st
         else
           (let st = st\<lparr>isLoading := True, errors := []\<rparr>;
                st = st\<lparr>register_calls := register_calls st @ [formData st]\<rparr>;
                st = (case result of
                        Resolved r \<Rightarrow>
                          st\<lparr>success := lit ''Account created! Redirecting to login...'',
                             timeouts := timeouts st @ [(2000, lit ''/login'')]\<rparr>
                      | Rejected error \<Rightarrow> st\<lparr>errors := register_failure_errors error\<rparr>)
            in st\<lparr>isLoading := False\<rparr>))"


section \<open>Login.jsx\<close>

text \<open>The page's state and the \<open>login\<close> requests it has sent.\<close>

record login_page = "credentials form_page" +
  login_calls :: "credentials list"

definition Login :: "storage \<Rightarrow> login_page" where
  "Login ls =
     \<lparr> isLoading = False, localStorage = ls, location = lit ''/login'',
       formData = \<lparr> username = [], password = [] \<rparr>,
       errors = [], login_calls = [] \<rparr>"

definition set_login_field :: "string \<Rightarrow> jsstring \<Rightarrow> credentials \<Rightarrow> credentials" where
  "set_login_field name v fd =
     (if name = ''username'' then fd\<lparr>username := v\<rparr>
      else if name = ''password'' then fd\<lparr>password := v\<rparr>
      else fd)"

definition handleChange_login :: "string \<Rightarrow> jsstring \<Rightarrow> login_page \<Rightarrow> login_page" where
  "handleChange_login name v st =
     (let st = st\<lparr>formData := set_login_field name v (formData st)\<rparr>
      in if truthy (js_or (getprop (JObj (errors st)) name) (getprop (JObj (errors st)) ''general''))
         then st\<lparr>errors := set_prop ''general'' (JStr []) (set_prop name (JStr []) (errors st))\<rparr>
         else st)"

definition validateForm_login :: "credentials \<Rightarrow> jsobj \<times> bool" where
  "validateForm_login fd =
     (let newErrors = [];
          newErrors =
            (if trim (username fd) = []
               then set_prop ''username'' (JStr (lit ''Please enter your username'')) newErrors
             else newErrors);
          newErrors =
            (if password fd = []
               then set_prop ''password'' (JStr (lit ''Please enter your password'')) newErrors
             else newErrors)
      in (newErrors, length (keys (JObj newErrors)) = 0))"

text \<open>The \<open>try\<close> block after \<open>await login(formData)\<close> has returned \<open>response\<close> (here \<open>res\<close>).\<close>

definition login_success :: "http_response \<Rightarrow> login_page \<Rightarrow> login_page" where
  "login_success res st =
     (if truthy (optchain (data res) ''access'') then
        (let st = setItem (lit ''token'') (getprop (data res) ''access'') st;
             st = (if truthy (optchain (data res) ''refresh'')
                   then setItem (lit ''refreshToken'') (getprop (data res) ''refresh'') st
                   else st)
         in navigate (lit ''/dashboard'') st)
      else if truthy (optchain (data res) ''token'') then
        (let st = setItem (lit ''token'') (getprop (data res) ''token'') st
         in navigate (lit ''/dashboard'') st)
      else st)"

text \<open>The \<open>catch\<close> block.\<close>

definition login_failure :: "api_error \<Rightarrow> login_page \<Rightarrow> login_page" where
  "login_failure error st =
     (if truthy (response_data error) then
        (let apiErrors = response_data error
         in if truthy (getprop apiErrors ''detail'')
            then st\<lparr>errors := [(''general'', getprop apiErrors ''detail'')]\<rparr>
            else st\<lparr>errors := [(''general'', JStr (lit ''Invalid credentials. Please try again.''))]\<rparr>)
      else st\<lparr>errors := [(''general'', JStr (lit ''Unable to connect. Please try again later.''))]\<rparr>)"

definition handleSubmit_login :: "outcome \<Rightarrow> login_page \<Rightarrow> login_page" where
  "handleSubmit_login result st =
     (let (newErrors, ok) = validateForm_login (formData st);
          st = st\<lparr>errors := newErrors\<rparr>
      in if \<not> ok then st
         else
           (let st = st\<lparr>isLoading := True, errors := []\<rparr>;
                st = st\<lparr>login_calls := login_calls st @ [formData st]\<rparr>;
                st = (case result of
                        Resolved res \<Rightarrow> login_success res st
                      | Rejected error \<Rightarrow> login_failure error st)
            in st\<lparr>isLoading := False\<rparr>))"


section \<open>Dashboard.jsx\<close>

text \<open>The calls the page makes to \<open>../api/auth\<close>, with their arguments.\<close>

datatype request =
    GetProfile
  | GetUsers jsstring
  | UpdateUser jsval jsobj
  | DeleteUser jsval

text \<open>The state hooks of the component, and the requests sent so far.\<close>

record dashboard = page +
  user :: jsval
  isAdmin :: jsval
  users :: jsval
  searchQuery :: jsstring
  usersLoading :: bool
  editingUser :: jsval
  editForm :: jsobj
  message :: jsobj
  requests :: "request list"

definition Dashboard :: "storage \<Rightarrow> dashboard" where
  "Dashboard ls =
     \<lparr> isLoading = True, localStorage = ls, location = lit ''/dashboard'',
       user = JNull, isAdmin = JBool False, users = JArr [], searchQuery = [],
       usersLoading = False, editingUser = JNull, editForm = [],
       message = [(''type'', JStr []), (''text'', JStr [])], requests = [] \<rparr>"

definition setMessage :: "string \<Rightarrow> jsval \<Rightarrow> dashboard \<Rightarrow> dashboard" where
  "setMessage ty txt st = st\<lparr>message := [(''type'', JStr (lit ty)), (''text'', txt)]\<rparr>"

definition send :: "request \<Rightarrow> dashboard \<Rightarrow> dashboard" where
  "send r st = st\<lparr>requests := requests st @ [r]\<rparr>"

subsection \<open>Rendering\<close>

text \<open>
  What React accepts as a child \<open>{v}\<close> of an element: strings and numbers, which it
  prints; booleans, \<open>null\<close> and \<open>undefined\<close>, which it skips; arrays of such
  values. For an object it throws.
\<close>

fun renderable :: "jsval \<Rightarrow> bool" where
  "renderable (JObj kvs) = False"
| "renderable (JArr xs) = list_all renderable xs"
| "renderable _ = True"

definition is_string :: "jsval \<Rightarrow> bool" where
  "is_string v = (case v of JStr s \<Rightarrow> True | _ \<Rightarrow> False)"

text \<open>
  The welcome card and the profile cards. \<open>user?.username?.charAt(0).toUpperCase()\<close>
  stops at a \<open>username\<close> that is \<open>undefined\<close> or \<open>null\<close> and throws for one
  that is not a string; \<open>Hello, {user?.username || 'Friend'}!\<close> and the five cards
  \<open>value={user?.id || 'N/A'}\<close>, ... put the value into the tree.
\<close>

definition user_renders :: "jsval \<Rightarrow> bool" where
  "user_renders u =
     ((nullish (optchain u ''username'') \<or> is_string (optchain u ''username''))
      \<and> renderable (js_or (optchain u ''username'') (JStr (lit ''Friend'')))
      \<and> list_all (\<lambda>k. renderable (js_or (optchain u k) (JStr (lit ''N/A''))))
            [''id'', ''username'', ''email'', ''first_name'', ''last_name''])"

text \<open>
  A row of the table: \<open>u.id\<close> throws for a row that is \<open>undefined\<close> or \<open>null\<close>;
  \<open>{u.id}\<close>, \<open>{u.username}\<close>, \<open>{u.email}\<close> and \<open>{u.full_name || '-'}\<close> are
  children. The badges \<open>{u.is_staff && ...}\<close> and \<open>{u.is_superuser && ...}\<close> put an
  element or a falsy value into the tree, and React accepts both.
\<close>

definition row_renders :: "jsval \<Rightarrow> bool" where
  "row_renders u =
     (\<not> nullish u
      \<and> renderable (getprop u ''id'') \<and> renderable (getprop u ''username'')
      \<and> renderable (getprop u ''email'')
      \<and> renderable (js_or (getprop u ''full_name'') (JStr (lit ''-''))))"

text \<open>
  \<open>users.map((u) => ...)\<close> for the value of \<open>users\<close>: only an array has
  \<open>map\<close>; for any other value the call throws.
\<close>

definition table_renders :: "jsval \<Rightarrow> bool" where
  "table_renders us = (case us of JArr xs \<Rightarrow> list_all row_renders xs | _ \<Rightarrow> False)"

text \<open>
  The render of a state throws. While \<open>isLoading\<close> holds the component returns the
  spinner, which reads nothing. Otherwise it builds the cards, the message
  \<open>{message.text && ( ... {message.text} ... )}\<close> and, under
  \<open>{isAdmin && ...}\<close> and \<open>usersLoading ? spinner : table\<close>, the table. The edit
  form passes its values to \<open>value\<close> and \<open>checked\<close> of inputs, which take any
  value.
\<close>

definition render_throws :: "dashboard \<Rightarrow> bool" where
  "render_throws st =
     (\<not> isLoading st
      \<and> \<not> (user_renders (user st)
             \<and> renderable (getprop (JObj (message st)) ''text'')
             \<and> (\<not> truthy (isAdmin st) \<or> usersLoading st \<or> table_renders (users st))))"

text \<open>
  The page is on screen with this state: the router is at \<open>/dashboard\<close> and the
  render did not throw. After a render that throws React removes the whole tree, and
  nothing of the page is shown or runs again.
\<close>

definition committed :: "dashboard \<Rightarrow> bool" where
  "committed st = (location st = lit ''/dashboard'' \<and> \<not> render_throws st)"

subsection \<open>Effects and handlers\<close>

text \<open>
  The \<open>catch\<close> block of \<open>fetchProfile\<close>. It also receives the TypeError of
  \<open>response.data.is_staff\<close> when the response carries no data.
\<close>

definition profile_failure :: "dashboard \<Rightarrow> dashboard" where
  "profile_failure st =
     navigate (lit ''/login'') (removeItem (lit ''refreshToken'') (removeItem (lit ''token'') st))"

definition fetchProfile :: "outcome \<Rightarrow> dashboard \<Rightarrow> dashboard" where
  "fetchProfile result st =
     (let token = getItem (lit ''token'') st
      in if \<not> truthy token then navigate (lit ''/login'') st
         else
           (let st = send GetProfile st;
                st = (case result of
                        Resolved res \<Rightarrow>
                          (let st = st\<lparr>user := data res\<rparr>
                           in if nullish (data res) then profile_failure st
                              else st\<lparr>isAdmin := js_or (getprop (data res) ''is_staff'')
                                                     (getprop (data res) ''is_superuser'')\<rparr>)
                      | Rejected err \<Rightarrow> profile_failure st)
            in st\<lparr>isLoading := False\<rparr>))"

definition fetchUsers :: "outcome \<Rightarrow> dashboard \<Rightarrow> dashboard" where
  "fetchUsers result st =
     (let st = st\<lparr>usersLoading := True\<rparr>;
          st = send (GetUsers (searchQuery st)) st;
          st = (case result of
                  Resolved res \<Rightarrow>
                    (if nullish (data res)
                     then setMessage ''error'' (JStr (lit ''Failed to load users.'')) st
                     else st\<lparr>users := js_or (getprop (data res) ''users'') (JArr [])\<rparr>)
                | Rejected err \<Rightarrow> setMessage ''error'' (JStr (lit ''Failed to load users.'')) st)
      in st\<lparr>usersLoading := False\<rparr>)"

text \<open>
  \<open>useEffect(() => { if (isAdmin) fetchUsers(); }, [isAdmin, searchQuery])\<close>: after a
  render that is committed and in which one of the two dependencies differs from the
  render before, the effect runs. \<open>prev\<close> is the state of the render before.
  \<open>isAdmin\<close> is replaced by \<open>fetchProfile\<close> alone, once, and was the boolean
  \<open>false\<close> before; so two renders hold the same value or \<open>false\<close> and a value
  of the response, and comparing the values is what \<open>Object.is\<close> does.
\<close>

definition users_effect :: "outcome \<Rightarrow> dashboard \<Rightarrow> dashboard \<Rightarrow> dashboard" where
  "users_effect result prev st =
     (if \<not> committed st then st
      else if isAdmin st \<noteq> isAdmin prev \<or> searchQuery st \<noteq> searchQuery prev
      then (if truthy (isAdmin st) then fetchUsers result st else st)
      else st)"

text \<open>
  Mounting the page: both effects run after the first render; the second finds
  \<open>isAdmin\<close> false. When the profile has been fetched the page renders again and the
  second effect sees the new \<open>isAdmin\<close>.
\<close>

definition mount :: "outcome \<Rightarrow> outcome \<Rightarrow> storage \<Rightarrow> dashboard" where
  "mount profile_result users_result ls =
     (let st0 = Dashboard ls;
          st1 = (if truthy (isAdmin st0) then fetchUsers users_result st0 else st0);
          st2 = fetchProfile profile_result st1
      in users_effect users_result st1 st2)"

definition handleLogout :: "dashboard \<Rightarrow> dashboard" where
  "handleLogout st =
     navigate (lit ''/login'') (removeItem (lit ''refreshToken'') (removeItem (lit ''token'') st))"

definition handleSearch :: "jsstring \<Rightarrow> outcome \<Rightarrow> dashboard \<Rightarrow> dashboard" where
  "handleSearch v result st = users_effect result st (st\<lparr>searchQuery := v\<rparr>)"

text \<open>
  \<open>handleEditClick\<close>: \<open>setEditingUser\<close> comes first; for a row that is
  \<open>undefined\<close> or \<open>null\<close> the object literal then throws and the form is left as
  it was.
\<close>

definition handleEditClick :: "jsval \<Rightarrow> dashboard \<Rightarrow> dashboard" where
  "handleEditClick userToEdit st =
     (let st = st\<lparr>editingUser := userToEdit\<rparr>
      in if nullish userToEdit then st
         else
           (let st = st\<lparr>editForm :=
                        [(''username'', getprop userToEdit ''username''),
                         (''email'', getprop userToEdit ''email''),
                         (''first_name'', getprop userToEdit ''first_name''),
                         (''last_name'', getprop userToEdit ''last_name''),
                         (''is_active'', getprop userToEdit ''is_active''),
                         (''is_staff'', getprop userToEdit ''is_staff'')]\<rparr>
            in setMessage [] (JStr []) st))"

text \<open>\<open>handleEditChange\<close> with the \<open>name\<close>, \<open>type\<close>, \<open>value\<close> and \<open>checked\<close> of the input.\<close>

definition handleEditChange :: "string \<Rightarrow> string \<Rightarrow> jsstring \<Rightarrow> bool \<Rightarrow> dashboard \<Rightarrow> dashboard" where
  "handleEditChange name ty v checked st =
     st\<lparr>editForm := set_prop name (if ty = ''checkbox'' then JBool checked else JStr v) (editForm st)\<rparr>"

text \<open>\<open>Object.values(v)\<close> and \<open>Array.prototype.flat\<close> (one level).\<close>

definition values_of :: "jsval \<Rightarrow> jsval list" where
  "values_of v = map (at_key v) (keys v)"

definition flat :: "jsval list \<Rightarrow> jsval list" where
  "flat xs = concat (map (\<lambda>x. case x of JArr ys \<Rightarrow> ys | _ \<Rightarrow> [x]) xs)"

definition update_errorMsg :: "api_error \<Rightarrow> jsval" where
  "update_errorMsg err =
     js_or (js_or (optchain (response_data err) ''error'')
                  (JStr (join (flat (values_of (js_or (response_data err) (JObj [])))) (lit '', ''))))
           (JStr (lit ''Failed to update user.''))"

text \<open>
  \<open>handleEditSubmit\<close>. With no user under edit \<open>editingUser.id\<close> throws inside the
  \<open>try\<close> and the \<open>catch\<close> reports the failure; no request is sent.
\<close>

definition handleEditSubmit :: "outcome \<Rightarrow> outcome \<Rightarrow> dashboard \<Rightarrow> dashboard" where
  "handleEditSubmit update_result users_result st =
     (if nullish (editingUser st)
      then setMessage ''error'' (update_errorMsg \<lparr>response = None\<rparr>) st
      else
        (let st = send (UpdateUser (getprop (editingUser st) ''id'') (editForm st)) st
         in case update_result of
              Resolved res \<Rightarrow>
                (let st = setMessage ''success'' (JStr (lit ''User updated successfully!'')) st;
                     st = st\<lparr>editingUser := JNull\<rparr>
                 in fetchUsers users_result st)
            | Rejected err \<Rightarrow> setMessage ''error'' (update_errorMsg err) st))"

text \<open>
  \<open>handleDeleteUser\<close> with the answer of \<open>window.confirm\<close>. Building the question
  reads \<open>userToDelete.username\<close>, which throws for a row that is \<open>undefined\<close> or
  \<open>null\<close>, before anything else happens.
\<close>

definition handleDeleteUser :: "jsval \<Rightarrow> bool \<Rightarrow> outcome \<Rightarrow> outcome \<Rightarrow> dashboard \<Rightarrow> dashboard" where
  "handleDeleteUser userToDelete confirmed delete_result users_result st =
     (if nullish userToDelete then st
      else if \<not> confirmed then st
      else
        (let st = send (DeleteUser (getprop userToDelete ''id'')) st
         in case delete_result of
              Resolved res \<Rightarrow>
                (let st = setMessage ''success''
                            (JStr (lit ''User '' @ [0x22] @ to_string (getprop userToDelete ''username'')
                                   @ [0x22] @ lit '' deleted successfully!'')) st
                 in fetchUsers users_result st)
            | Rejected err \<Rightarrow>
                setMessage ''error''
                  (js_or (optchain (response_data err) ''error'') (JStr (lit ''Failed to delete user.''))) st))"

subsection \<open>What the page shows\<close>

text \<open>
  The conditions under which the JSX puts an element into the tree. Nothing is shown
  when the page is not on screen; while \<open>isLoading\<close> holds the component returns the
  spinner alone.
\<close>

definition main_shown :: "dashboard \<Rightarrow> bool" where
  "main_shown st = (committed st \<and> \<not> isLoading st)"

text \<open>\<open>{isAdmin && ( ... User Management ... )}\<close>\<close>

definition admin_panel_shown :: "dashboard \<Rightarrow> bool" where
  "admin_panel_shown st = (main_shown st \<and> truthy (isAdmin st))"

text \<open>
  The rows \<open>users.map\<close> goes through: the elements of \<open>users\<close>. There are none
  to speak of when \<open>users\<close> is not an array: the call throws.
\<close>

definition rows :: "dashboard \<Rightarrow> jsval list option" where
  "rows st = (case users st of JArr xs \<Rightarrow> Some xs | _ \<Rightarrow> None)"

text \<open>\<open>{usersLoading ? spinner : <table> ... {users.map((u) => <tr> ...)} }\<close>\<close>

definition row_shown :: "dashboard \<Rightarrow> jsval \<Rightarrow> bool" where
  "row_shown st u =
     (admin_panel_shown st \<and> \<not> usersLoading st
      \<and> (case rows st of Some xs \<Rightarrow> List.member xs u | None \<Rightarrow> False))"

text \<open>
  \<open>{!u.is_superuser && u.id !== user?.id && ( <button onClick={() => handleDeleteUser(u)} ...> )}\<close>.
  The row comes from the list response and \<open>user\<close> from the profile response.
\<close>

definition delete_button_shown :: "dashboard \<Rightarrow> jsval \<Rightarrow> bool" where
  "delete_button_shown st u =
     (row_shown st u \<and> \<not> truthy (getprop u ''is_superuser'')
      \<and> \<not> strict_eq (getprop u ''id'') (optchain (user st) ''id''))"

text \<open>\<open>{editingUser && ( ... Edit User ... )}\<close>\<close>

definition edit_modal_shown :: "dashboard \<Rightarrow> bool" where
  "edit_modal_shown st = (main_shown st \<and> truthy (editingUser st))"

text \<open>The inputs of the edit form: their \<open>name\<close> and \<open>type\<close> attributes.\<close>

definition edit_inputs :: "(string \<times> string) list" where
  "edit_inputs =
     [(''username'', ''text''), (''email'', ''email''), (''first_name'', ''text''),
      (''last_name'', ''text''), (''is_active'', ''checkbox''), (''is_staff'', ''checkbox'')]"

text \<open>The properties \<open>handleEditClick\<close> copies from the row into the form, in order.\<close>

definition edit_fields :: "string list" where
  "edit_fields = [''username'', ''email'', ''first_name'', ''last_name'', ''is_active'', ''is_staff'']"

subsection \<open>Sessions\<close>

text \<open>
  What the user can do on the page. An event carries what the browser supplies (the
  text typed, the row clicked, the answer to the confirmation) and the outcomes of the
  calls its handler awaits. It is accepted only when the element that carries its
  handler is shown.
\<close>

datatype event =
    ClickLogout
  | TypeSearch jsstring outcome
  | ClickEdit jsval
  | ChangeEdit string jsstring bool
  | SubmitEdit outcome outcome
  | CloseEdit
  | ClickDelete jsval bool outcome outcome

fun dispatch :: "event \<Rightarrow> dashboard \<Rightarrow> dashboard option" where
  "dispatch ClickLogout st =
     (if main_shown st then Some (handleLogout st) else None)"
| "dispatch (TypeSearch v r) st =
     (if admin_panel_shown st then Some (handleSearch v r st) else None)"
| "dispatch (ClickEdit u) st =
     (if row_shown st u then Some (handleEditClick u st) else None)"
| "dispatch (ChangeEdit name v checked) st =
     (if edit_modal_shown st then
        (case map_of edit_inputs name of
           Some ty \<Rightarrow> Some (handleEditChange name ty v checked st)
         | None \<Rightarrow> None)
      else None)"
| "dispatch (SubmitEdit r1 r2) st =
     (if edit_modal_shown st then Some (handleEditSubmit r1 r2 st) else None)"
| "dispatch CloseEdit st =
     (if edit_modal_shown st then Some (st\<lparr>editingUser := JNull\<rparr>) else None)"
| "dispatch (ClickDelete u confirmed r1 r2) st =
     (if delete_button_shown st u then Some (handleDeleteUser u confirmed r1 r2 st) else None)"

text \<open>A run of events from a state; an event that is not accepted changes nothing.\<close>

fun run :: "event list \<Rightarrow> dashboard \<Rightarrow> dashboard" where
  "run [] st = st"
| "run (e # es) st = run es (case dispatch e st of None \<Rightarrow> st | Some st' \<Rightarrow> st')"

text \<open>The requests an event makes the page send in a state.\<close>

definition sent_by :: "event \<Rightarrow> dashboard \<Rightarrow> request list" where
  "sent_by e st =
     (case dispatch e st of
        None \<Rightarrow> []
      | Some st' \<Rightarrow> drop (length (requests st)) (requests st'))"


section \<open>The checks of the registration form, as the specification words them\<close>

text \<open>
  Username present after trimming and of at least 3 code units; email present after
  trimming and matching the pattern; password present and of at least 8 code units;
  confirmation present and equal to the password. The lengths are those of the fields
  as typed.
\<close>

definition all_checks_pass :: "register_form \<Rightarrow> bool" where
  "all_checks_pass fd =
     ((trim (username fd) \<noteq> [] \<and> 3 \<le> length (username fd))
      \<and> (trim (email fd) \<noteq> [] \<and> test emailRegex (email fd))
      \<and> (password fd \<noteq> [] \<and> 8 \<le> length (password fd))
      \<and> (password2 fd \<noteq> [] \<and> password2 fd = password fd))"

section \<open>Sample inputs\<close>

definition bob_form :: register_form where
  "bob_form =
     \<lparr> username = lit ''bob12'', password = lit ''longenough1'', email = lit ''bob@x.com'',
       first_name = [], last_name = [], password2 = lit ''longenough1'' \<rparr>"

definition short_form :: register_form where
  "short_form =
     \<lparr> username = lit ''bo'', password = lit ''longenough1'', email = lit ''bob@x.com'',
       first_name = [], last_name = [], password2 = lit ''longenough2'' \<rparr>"

definition padded_form :: register_form where
  "padded_form = bob_form\<lparr> username := lit '' a '' \<rparr>"

definition register_with :: "register_form \<Rightarrow> register_page" where
  "register_with fd = (Register Map.empty)\<lparr>formData := fd\<rparr>"

definition created :: outcome where
  "created = Resolved \<lparr> data = JObj [(''id'', JNum 7)] \<rparr>"

definition login_with :: "credentials \<Rightarrow> login_page" where
  "login_with fd = (Login Map.empty)\<lparr>formData := fd\<rparr>"

definition bob_login :: credentials where
  "bob_login = \<lparr> username = lit ''bob12'', password = lit ''longenough1'' \<rparr>"



definition no_token_response :: http_response where
  "no_token_response = \<lparr> data = JObj [(''message'', JStr (lit ''ok''))] \<rparr>"

text \<open>
  Three failed logins: a 401 with a \<open>detail\<close>, a rejection whose body has no
  \<open>detail\<close>, and no response at all; and a fourth, a response whose body is empty
  (the HTTP client then gives the empty string as \<open>data\<close>).
\<close>

definition detail_error :: api_error where
  "detail_error =
     \<lparr> response = Some \<lparr> data = JObj [(''detail'', JStr (lit ''No active account''))] \<rparr> \<rparr>"

definition plain_error :: api_error where
  "plain_error =
     \<lparr> response = Some \<lparr> data = JObj [(''error'', JStr (lit ''Bad request''))] \<rparr> \<rparr>"

definition network_error :: api_error where
  "network_error = \<lparr> response = None \<rparr>"

definition empty_body_error :: api_error where
  "empty_body_error = \<lparr> response = Some \<lparr> data = JStr [] \<rparr> \<rparr>"

definition root_user :: jsval where
  "root_user =
     JObj [(''id'', JNum 1), (''username'', JStr (lit ''root'')),
           (''email'', JStr (lit ''root@x.com'')), (''first_name'', JStr []),
           (''last_name'', JStr []), (''is_active'', JBool True),
           (''is_staff'', JBool False), (''is_superuser'', JBool True)]"

definition bob_user :: jsval where
  "bob_user =
     JObj [(''id'', JNum 2), (''username'', JStr (lit ''bob12'')),
           (''email'', JStr (lit ''bob@x.com'')), (''first_name'', JStr []),
           (''last_name'', JStr []), (''is_active'', JBool True),
           (''is_staff'', JBool False), (''is_superuser'', JBool False)]"

definition ok :: "jsval \<Rightarrow> outcome" where
  "ok v = Resolved \<lparr> data = v \<rparr>"

definition user_list :: outcome where
  "user_list = ok (JObj [(''users'', JArr [root_user, bob_user])])"

definition stored_tokens :: storage where
  "stored_tokens = [lit ''token'' \<mapsto> lit ''aaa'', lit ''refreshToken'' \<mapsto> lit ''rrr'']"

text \<open>The superuser's session after mounting, and an edit of bob's row in it.\<close>

definition root_session :: dashboard where
  "root_session = mount (ok root_user) user_list stored_tokens"

definition promote_bob :: "event list" where
  "promote_bob =
     [ClickEdit bob_user, ChangeEdit ''is_staff'' [] True, SubmitEdit (ok bob_user) user_list]"

definition promoted_body :: jsobj where
  "promoted_body =
     [(''username'', JStr (lit ''bob12'')), (''email'', JStr (lit ''bob@x.com'')),
      (''first_name'', JStr []), (''last_name'', JStr []), (''is_active'', JBool True),
      (''is_staff'', JBool True)]"

definition delete_bob :: event where
  "delete_bob = ClickDelete bob_user True (ok JNull) user_list"

section \<open>Properties of the registration form\<close>

lemma keys_obj_empty: "(length (keys (JObj kvs)) = 0) = (kvs = [])"
  by (cases kvs) auto

text \<open>One check of a validation function: at most one message, under one key.\<close>

lemma check_empty:
  "((if a then set_prop k v al else if b then set_prop k w al else al) = []) =
   (\<not> a \<and> \<not> b \<and> al = [])"
  by (simp add: set_prop_def)

lemma check_keys:
  "fst ` set al \<subseteq> S \<Longrightarrow> k \<in> S \<Longrightarrow>
   fst ` set (if a then set_prop k v al else if b then set_prop k w al else al) \<subseteq> S"
  by (simp add: set_prop_def dom_update)

lemma check_map_of:
  "map_of (if a then set_prop k v al else if b then set_prop k w al else al) =
   (if a then (map_of al)(k \<mapsto> v) else if b then (map_of al)(k \<mapsto> w) else map_of al)"
  by (simp add: set_prop_def update_conv')

lemma validate_register_nonempty:
  "(fst (validateForm_register fd) = []) = all_checks_pass fd"
  unfolding validateForm_register_def all_checks_pass_def Let_def fst_conv check_empty
  by auto

lemma validate_register_ok: "snd (validateForm_register fd) = all_checks_pass fd"
  unfolding validateForm_register_def all_checks_pass_def Let_def snd_conv keys_obj_empty
    check_empty
  by auto

lemma validate_register_keys:
  "fst ` set (fst (validateForm_register fd))
     \<subseteq> {''username'', ''email'', ''password'', ''password2''}"
  unfolding validateForm_register_def Let_def fst_conv
  by (intro check_keys) simp_all

lemma validate_register_username:
  "map_of (fst (validateForm_register fd)) ''username'' =
     (if trim (username fd) = [] then Some (JStr (lit ''Username is required''))
      else if length (username fd) < 3 then Some (JStr (lit ''At least 3 characters''))
      else None)"
  unfolding validateForm_register_def Let_def fst_conv check_map_of
  by simp

lemma validate_register_password2:
  "map_of (fst (validateForm_register fd)) ''password2'' =
     (if password2 fd = [] then Some (JStr (lit ''Confirm your password''))
      else if password fd \<noteq> password2 fd then Some (JStr (lit ''Passwords do not match''))
      else None)"
  unfolding validateForm_register_def Let_def fst_conv check_map_of
  by simp

lemma submit_register_invalid:
  "\<not> all_checks_pass (formData st) \<Longrightarrow>
   handleSubmit_register result st = st\<lparr>errors := fst (validateForm_register (formData st))\<rparr>"
  using validate_register_ok [of "formData st"]
  by (simp add: handleSubmit_register_def case_prod_unfold Let_def)

lemma submit_register_valid:
  "all_checks_pass (formData st) \<Longrightarrow>
   register_calls (handleSubmit_register result st) = register_calls st @ [formData st]"
  using validate_register_ok [of "formData st"]
  by (cases result) (simp_all add: handleSubmit_register_def case_prod_unfold Let_def)

lemma bob_form_passes: "all_checks_pass bob_form"
  by code_simp

lemma short_form_fails: "\<not> all_checks_pass short_form"
  by code_simp

text \<open>
  C3. Submitting the registration form sends the \<open>register\<close> request exactly when
  the four checks pass: with the form data, once. When a check fails nothing is sent;
  the page is left as it was except for its error object, which is then not empty and
  has its keys among the four checked fields.
\<close>

theorem register_submit_iff_checks:
  "(all_checks_pass (formData st) \<longrightarrow>
      register_calls (handleSubmit_register result st) = register_calls st @ [formData st])
   \<and> (\<not> all_checks_pass (formData st) \<longrightarrow>
        register_calls (handleSubmit_register result st) = register_calls st
        \<and> errors (handleSubmit_register result st) \<noteq> []
        \<and> fst ` set (errors (handleSubmit_register result st))
             \<subseteq> {''username'', ''email'', ''password'', ''password2''}
        \<and> handleSubmit_register result st
            = st\<lparr>errors := errors (handleSubmit_register result st)\<rparr>)"
  using validate_register_nonempty [of "formData st"] validate_register_keys [of "formData st"]
  by (simp add: submit_register_invalid submit_register_valid)

theorem register_submit_iff_checks_witness:
  "all_checks_pass (formData (register_with bob_form))
   \<and> register_calls (handleSubmit_register created (register_with bob_form)) = [bob_form]
   \<and> \<not> all_checks_pass (formData (register_with short_form))
   \<and> register_calls (handleSubmit_register created (register_with short_form)) = []
   \<and> errors (handleSubmit_register created (register_with short_form)) \<noteq> []"
  using register_submit_iff_checks [of "register_with bob_form" created]
        register_submit_iff_checks [of "register_with short_form" created]
        bob_form_passes short_form_fails
  by (simp add: register_with_def Register_def)

text \<open>
  C5. When the username field is empty after trimming or, not being so, has fewer than
  3 code units, submitting stores a message under the key \<open>username\<close> and sends no
  \<open>register\<close> request.
\<close>

theorem register_short_username:
  "(trim (username (formData st)) \<noteq> [] \<longrightarrow> length (username (formData st)) < 3) \<Longrightarrow>
   getprop (JObj (errors (handleSubmit_register result st))) ''username'' =
     JStr (lit (if trim (username (formData st)) = [] then ''Username is required''
                else ''At least 3 characters''))
   \<and> register_calls (handleSubmit_register result st) = register_calls st"
proof -
  assume h: "trim (username (formData st)) \<noteq> [] \<longrightarrow> length (username (formData st)) < 3"
  then have bad: "\<not> all_checks_pass (formData st)"
    by (auto simp: all_checks_pass_def)
  show ?thesis
    using h by (auto simp: submit_register_invalid [OF bad] validate_register_username)
qed

theorem register_short_username_witness:
  "trim (username (formData (register_with short_form))) \<noteq> []
   \<and> length (username (formData (register_with short_form))) < 3
   \<and> getprop (JObj (errors (handleSubmit_register created (register_with short_form))))
         ''username'' = JStr (lit ''At least 3 characters'')
   \<and> register_calls (handleSubmit_register created (register_with short_form)) = []"
proof -
  have t: "trim (username (formData (register_with short_form))) \<noteq> []"
    by code_simp
  have n: "length (username (formData (register_with short_form))) < 3"
    by (simp add: register_with_def short_form_def lit_def)
  then have h: "trim (username (formData (register_with short_form))) \<noteq> []
      \<longrightarrow> length (username (formData (register_with short_form))) < 3"
    by simp
  show ?thesis
    using register_short_username [OF h, of created] t n
    by (simp add: register_with_def Register_def)
qed

text \<open>
  C6. When the confirmation is not empty and differs from the password, submitting
  stores the message \<open>Passwords do not match\<close> under the key \<open>password2\<close> and sends
  no \<open>register\<close> request.
\<close>

theorem register_password_mismatch:
  "password2 (formData st) \<noteq> [] \<Longrightarrow> password2 (formData st) \<noteq> password (formData st) \<Longrightarrow>
   getprop (JObj (errors (handleSubmit_register result st))) ''password2'' =
     JStr (lit ''Passwords do not match'')
   \<and> register_calls (handleSubmit_register result st) = register_calls st"
proof -
  assume h: "password2 (formData st) \<noteq> []" "password2 (formData st) \<noteq> password (formData st)"
  then have bad: "\<not> all_checks_pass (formData st)"
    by (auto simp: all_checks_pass_def)
  show ?thesis
    using h by (auto simp: submit_register_invalid [OF bad] validate_register_password2)
qed

theorem register_password_mismatch_witness:
  "password2 (formData (register_with short_form)) \<noteq> []
   \<and> password2 (formData (register_with short_form))
       \<noteq> password (formData (register_with short_form))
   \<and> getprop (JObj (errors (handleSubmit_register created (register_with short_form))))
         ''password2'' = JStr (lit ''Passwords do not match'')
   \<and> register_calls (handleSubmit_register created (register_with short_form)) = []"
proof -
  have h1: "password2 (formData (register_with short_form)) \<noteq> []"
    by (simp add: register_with_def short_form_def lit_def)
  have h2: "password2 (formData (register_with short_form))
              \<noteq> password (formData (register_with short_form))"
    by (simp add: register_with_def short_form_def lit_def)
  show ?thesis
    using register_password_mismatch [OF h1 h2, of created] h1 h2
    by (simp add: register_with_def Register_def)
qed

text \<open>
  The length tested is that of the field as typed: a username of three code units of
  which two are spaces passes the username check, and the request is sent.
\<close>

lemma register_padded_username_sent:
  "register_calls (handleSubmit_register created (register_with padded_form)) = [padded_form]"
proof -
  have "all_checks_pass padded_form"
    by code_simp
  then show ?thesis
    using submit_register_valid [of "register_with padded_form" created]
    by (simp add: register_with_def Register_def)
qed

section \<open>Properties of the login form\<close>

lemma validate_login_ok: "snd (validateForm_login fd) = (trim (username fd) \<noteq> [] \<and> password fd \<noteq> [])"
  unfolding validateForm_login_def Let_def snd_conv keys_obj_empty
  by (auto simp: set_prop_def)

lemma submit_login_sent:
  "trim (username (formData st)) \<noteq> [] \<Longrightarrow> password (formData st) \<noteq> [] \<Longrightarrow>
   handleSubmit_login result st =
     (case result of
        Resolved res \<Rightarrow> login_success res (st\<lparr>isLoading := True, errors := [], login_calls := login_calls st @ [formData st]\<rparr>)
      | Rejected error \<Rightarrow> login_failure error (st\<lparr>isLoading := True, errors := [], login_calls := login_calls st @ [formData st]\<rparr>))
     \<lparr>isLoading := False\<rparr>"
  using validate_login_ok [of "formData st"]
  by (cases result) (simp_all add: handleSubmit_login_def case_prod_unfold Let_def)






text \<open>
  C10. When the form passes its checks and the login call resolves with a response whose
  data has neither a truthy \<open>access\<close> nor a truthy \<open>token\<close> (in particular when
  both fields are absent), the page stores nothing, does not navigate and shows no
  error: all that changes is that the call has been sent, the errors are cleared and
  \<open>isLoading\<close> is false again.
\<close>

theorem login_without_token_silent:
  "trim (username (formData st)) \<noteq> [] \<Longrightarrow> password (formData st) \<noteq> [] \<Longrightarrow>
   \<not> truthy (optchain (data res) ''access'') \<Longrightarrow> \<not> truthy (optchain (data res) ''token'') \<Longrightarrow>
   handleSubmit_login (Resolved res) st
     = st\<lparr>isLoading := False, errors := [], login_calls := login_calls st @ [formData st]\<rparr>
   \<and> localStorage (handleSubmit_login (Resolved res) st) = localStorage st
   \<and> location (handleSubmit_login (Resolved res) st) = location st
   \<and> errors (handleSubmit_login (Resolved res) st) = []"
  by (simp add: submit_login_sent login_success_def)

theorem login_without_token_silent_witness:
  "trim (username (formData (login_with bob_login))) \<noteq> []
   \<and> password (formData (login_with bob_login)) \<noteq> []
   \<and> \<not> truthy (optchain (data no_token_response) ''access'')
   \<and> \<not> truthy (optchain (data no_token_response) ''token'')
   \<and> localStorage (handleSubmit_login (Resolved no_token_response) (login_with bob_login))
       = Map.empty
   \<and> location (handleSubmit_login (Resolved no_token_response) (login_with bob_login))
       = lit ''/login''
   \<and> errors (handleSubmit_login (Resolved no_token_response) (login_with bob_login)) = []"
proof -
  have h1: "trim (username (formData (login_with bob_login))) \<noteq> []"
    by code_simp
  have h2: "password (formData (login_with bob_login)) \<noteq> []"
    by code_simp
  have h3: "\<not> truthy (optchain (data no_token_response) ''access'')"
    by code_simp
  have h4: "\<not> truthy (optchain (data no_token_response) ''token'')"
    by code_simp
  show ?thesis
    using login_without_token_silent [OF h1 h2 h3 h4] h1 h2 h3 h4
    by (simp add: login_with_def Login_def)
qed

text \<open>
  C7 does not hold as stated. A failed login whose server response exists but has an
  empty body: the request was sent, a response came back, it carries no \<open>detail\<close>,
  and the message shown is the connectivity one, not the invalid-credentials one.
\<close>

theorem login_empty_body_counterexample:
  "login_calls (handleSubmit_login (Rejected empty_body_error) (login_with bob_login)) = [bob_login]
   \<and> response empty_body_error \<noteq> None
   \<and> getprop (JObj (errors (handleSubmit_login (Rejected empty_body_error) (login_with bob_login))))
        ''general'' = JStr (lit ''Unable to connect. Please try again later.'')
   \<and> getprop (JObj (errors (handleSubmit_login (Rejected empty_body_error) (login_with bob_login))))
        ''general'' \<noteq> JStr (lit ''Invalid credentials. Please try again.'')"
  by code_simp

text \<open>
  C7, amended. When the form passes its checks and the login call rejects, the error
  object has the single key \<open>general\<close>. Its message is the \<open>detail\<close> of the
  response body when the body is truthy and has a truthy \<open>detail\<close>; the
  invalid-credentials message when the body is truthy without a truthy \<open>detail\<close>;
  the connectivity message when there is no response or the response has no truthy body.
\<close>

theorem login_failure_general_message:
  "trim (username (formData st)) \<noteq> [] \<Longrightarrow> password (formData st) \<noteq> [] \<Longrightarrow>
   map fst (errors (handleSubmit_login (Rejected error) st)) = [''general'']
   \<and> (truthy (response_data error) \<and> truthy (getprop (response_data error) ''detail'') \<longrightarrow>
        getprop (JObj (errors (handleSubmit_login (Rejected error) st))) ''general''
          = getprop (response_data error) ''detail'')
   \<and> (truthy (response_data error) \<and> \<not> truthy (getprop (response_data error) ''detail'') \<longrightarrow>
        getprop (JObj (errors (handleSubmit_login (Rejected error) st))) ''general''
          = JStr (lit ''Invalid credentials. Please try again.''))
   \<and> (response error = None \<or> \<not> truthy (response_data error) \<longrightarrow>
        getprop (JObj (errors (handleSubmit_login (Rejected error) st))) ''general''
          = JStr (lit ''Unable to connect. Please try again later.''))"
  by (auto simp: submit_login_sent login_failure_def Let_def response_data_def)

theorem login_failure_general_message_witness:
  "trim (username (formData (login_with bob_login))) \<noteq> []
   \<and> password (formData (login_with bob_login)) \<noteq> []
   \<and> getprop (JObj (errors (handleSubmit_login (Rejected detail_error) (login_with bob_login))))
        ''general'' = JStr (lit ''No active account'')
   \<and> getprop (JObj (errors (handleSubmit_login (Rejected plain_error) (login_with bob_login))))
        ''general'' = JStr (lit ''Invalid credentials. Please try again.'')
   \<and> getprop (JObj (errors (handleSubmit_login (Rejected network_error) (login_with bob_login))))
        ''general'' = JStr (lit ''Unable to connect. Please try again later.'')"
proof -
  have h1: "trim (username (formData (login_with bob_login))) \<noteq> []"
    by code_simp
  have h2: "password (formData (login_with bob_login)) \<noteq> []"
    by code_simp
  have d: "truthy (response_data detail_error)"
    "getprop (response_data detail_error) ''detail'' = JStr (lit ''No active account'')"
    "truthy (JStr (lit ''No active account''))"
    by (simp_all add: detail_error_def response_data_def lit_def)
  have p: "truthy (response_data plain_error)"
    "\<not> truthy (getprop (response_data plain_error) ''detail'')"
    by (simp_all add: plain_error_def response_data_def)
  have n: "response network_error = None"
    by (simp add: network_error_def)
  show ?thesis
    using login_failure_general_message [OF h1 h2, of detail_error]
      login_failure_general_message [OF h1 h2, of plain_error]
      login_failure_general_message [OF h1 h2, of network_error] h1 h2 d p n
    by simp
qed

section \<open>Properties of the dashboard\<close>

lemma setMessage_fields [simp]:
  "requests (setMessage ty txt st) = requests st"
  "isAdmin (setMessage ty txt st) = isAdmin st"
  "user (setMessage ty txt st) = user st"
  "users (setMessage ty txt st) = users st"
  "editingUser (setMessage ty txt st) = editingUser st"
  "editForm (setMessage ty txt st) = editForm st"
  "searchQuery (setMessage ty txt st) = searchQuery st"
  "location (setMessage ty txt st) = location st"
  "localStorage (setMessage ty txt st) = localStorage st"
  "isLoading (setMessage ty txt st) = isLoading st"
  by (simp_all add: setMessage_def)

lemma send_fields [simp]:
  "requests (send r st) = requests st @ [r]"
  "isAdmin (send r st) = isAdmin st"
  "user (send r st) = user st"
  "users (send r st) = users st"
  "editingUser (send r st) = editingUser st"
  "editForm (send r st) = editForm st"
  "searchQuery (send r st) = searchQuery st"
  "location (send r st) = location st"
  "localStorage (send r st) = localStorage st"
  "isLoading (send r st) = isLoading st"
  by (simp_all add: send_def)

lemma fetchUsers_fields [simp]:
  "requests (fetchUsers r st) = requests st @ [GetUsers (searchQuery st)]"
  "isAdmin (fetchUsers r st) = isAdmin st"
  "user (fetchUsers r st) = user st"
  "editingUser (fetchUsers r st) = editingUser st"
  "editForm (fetchUsers r st) = editForm st"
  "searchQuery (fetchUsers r st) = searchQuery st"
  "location (fetchUsers r st) = location st"
  "localStorage (fetchUsers r st) = localStorage st"
  "isLoading (fetchUsers r st) = isLoading st"
  by (simp_all add: fetchUsers_def Let_def split: outcome.splits)

lemma handleLogout_fields [simp]:
  "requests (handleLogout st) = requests st"
  "isAdmin (handleLogout st) = isAdmin st"
  "user (handleLogout st) = user st"
  "editingUser (handleLogout st) = editingUser st"
  "editForm (handleLogout st) = editForm st"
  "location (handleLogout st) = lit ''/login''"
  "isLoading (handleLogout st) = isLoading st"
  by (simp_all add: handleLogout_def navigate_def removeItem_def)

lemma handleSearch_fields [simp]:
  "requests (handleSearch v r st) =
     requests st @
       (if committed (st\<lparr>searchQuery := v\<rparr>) \<and> v \<noteq> searchQuery st \<and> truthy (isAdmin st)
        then [GetUsers v] else [])"
  "isAdmin (handleSearch v r st) = isAdmin st"
  "user (handleSearch v r st) = user st"
  "editingUser (handleSearch v r st) = editingUser st"
  "editForm (handleSearch v r st) = editForm st"
  "location (handleSearch v r st) = location st"
  "isLoading (handleSearch v r st) = isLoading st"
  by (simp_all add: handleSearch_def users_effect_def)

lemma handleEditClick_fields [simp]:
  "requests (handleEditClick u st) = requests st"
  "isAdmin (handleEditClick u st) = isAdmin st"
  "user (handleEditClick u st) = user st"
  "editingUser (handleEditClick u st) = u"
  "location (handleEditClick u st) = location st"
  "isLoading (handleEditClick u st) = isLoading st"
  by (simp_all add: handleEditClick_def Let_def)

lemma handleEditClick_form:
  "\<not> nullish u \<Longrightarrow> map fst (editForm (handleEditClick u st)) =
     [''username'', ''email'', ''first_name'', ''last_name'', ''is_active'', ''is_staff'']"
  by (simp add: handleEditClick_def Let_def)

lemma handleEditChange_fields [simp]:
  "requests (handleEditChange n ty v c st) = requests st"
  "isAdmin (handleEditChange n ty v c st) = isAdmin st"
  "user (handleEditChange n ty v c st) = user st"
  "editingUser (handleEditChange n ty v c st) = editingUser st"
  "editForm (handleEditChange n ty v c st) =
     set_prop n (if ty = ''checkbox'' then JBool c else JStr v) (editForm st)"
  "location (handleEditChange n ty v c st) = location st"
  "isLoading (handleEditChange n ty v c st) = isLoading st"
  by (simp_all add: handleEditChange_def)

lemma handleEditSubmit_fields [simp]:
  "requests (handleEditSubmit r1 r2 st) =
     requests st @
       (if nullish (editingUser st) then []
        else UpdateUser (getprop (editingUser st) ''id'') (editForm st)
             # (case r1 of Resolved res \<Rightarrow> [GetUsers (searchQuery st)] | Rejected err \<Rightarrow> []))"
  "isAdmin (handleEditSubmit r1 r2 st) = isAdmin st"
  "user (handleEditSubmit r1 r2 st) = user st"
  "editForm (handleEditSubmit r1 r2 st) = editForm st"
  "location (handleEditSubmit r1 r2 st) = location st"
  "isLoading (handleEditSubmit r1 r2 st) = isLoading st"
  by (simp_all add: handleEditSubmit_def Let_def split: outcome.splits)

lemma handleEditSubmit_editing:
  "truthy (editingUser (handleEditSubmit r1 r2 st)) \<Longrightarrow> truthy (editingUser st)"
  by (simp add: handleEditSubmit_def Let_def nullish_def split: outcome.splits if_splits)

lemma handleDeleteUser_fields [simp]:
  "requests (handleDeleteUser u c r1 r2 st) =
     requests st @
       (if nullish u \<or> \<not> c then []
        else DeleteUser (getprop u ''id'')
             # (case r1 of Resolved res \<Rightarrow> [GetUsers (searchQuery st)] | Rejected err \<Rightarrow> []))"
  "isAdmin (handleDeleteUser u c r1 r2 st) = isAdmin st"
  "user (handleDeleteUser u c r1 r2 st) = user st"
  "editingUser (handleDeleteUser u c r1 r2 st) = editingUser st"
  "editForm (handleDeleteUser u c r1 r2 st) = editForm st"
  "location (handleDeleteUser u c r1 r2 st) = location st"
  "isLoading (handleDeleteUser u c r1 r2 st) = isLoading st"
  by (simp_all add: handleDeleteUser_def Let_def split: outcome.splits)

lemma run_invariant:
  assumes "P st" and step: "\<And>e s s'. P s \<Longrightarrow> dispatch e s = Some s' \<Longrightarrow> P s'"
  shows "P (run es st)"
  using assms(1)
proof (induction es arbitrary: st)
  case Nil
  then show ?case by simp
next
  case (Cons e es)
  show ?case
  proof (cases "dispatch e st")
    case None
    with Cons show ?thesis by simp
  next
    case (Some s')
    with Cons.prems have "P s'" by (rule_tac step)
    with Cons.IH Some show ?thesis by simp
  qed
qed

lemma dispatch_isAdmin: "dispatch e st = Some st' \<Longrightarrow> isAdmin st' = isAdmin st"
  by (cases e) (auto split: if_splits option.splits)

lemma dispatch_user: "dispatch e st = Some st' \<Longrightarrow> user st' = user st"
  by (cases e) (auto split: if_splits option.splits)

lemma run_isAdmin: "isAdmin (run es st) = isAdmin st"
  by (rule run_invariant [where P = "\<lambda>s. isAdmin s = isAdmin st"]) (simp_all add: dispatch_isAdmin)

lemma run_user: "user (run es st) = user st"
  by (rule run_invariant [where P = "\<lambda>s. user s = user st"]) (simp_all add: dispatch_user)

lemma truthy_js_or: "truthy (js_or a b) = (truthy a \<or> truthy b)"
  by (simp add: js_or_def)

lemma mount_admin:
  assumes "truthy (isAdmin (mount rp ru ls))"
  shows "\<exists>res. rp = Resolved res \<and> \<not> nullish (data res)
           \<and> user (mount rp ru ls) = data res
           \<and> isAdmin (mount rp ru ls)
               = js_or (getprop (data res) ''is_staff'') (getprop (data res) ''is_superuser'')"
  using assms
  by (cases rp)
     (auto simp: mount_def Dashboard_def fetchProfile_def users_effect_def Let_def
        profile_failure_def navigate_def removeItem_def send_def
        split: if_splits)

lemma mount_initial:
  "editingUser (mount rp ru ls) = JNull"
  "set (requests (mount rp ru ls)) \<subseteq> {GetProfile, GetUsers []}"
  "\<not> truthy (isAdmin (mount rp ru ls)) \<Longrightarrow> GetUsers q \<notin> set (requests (mount rp ru ls))"
  by (cases rp;
      auto simp: mount_def Dashboard_def fetchProfile_def users_effect_def Let_def
        profile_failure_def navigate_def removeItem_def send_def
        split: if_splits)+

lemma mount_fetched:
  assumes "ls (lit ''token'') = Some t" "t \<noteq> []" "\<not> nullish (data res)"
  shows "isAdmin (mount (Resolved res) ru ls)
           = js_or (getprop (data res) ''is_staff'') (getprop (data res) ''is_superuser'')"
    and "location (mount (Resolved res) ru ls) = lit ''/dashboard''"
    and "isLoading (mount (Resolved res) ru ls) = False"
    and "user (mount (Resolved res) ru ls) = data res"
  using assms
  by (auto simp: mount_def Dashboard_def fetchProfile_def users_effect_def Let_def getItem_def
        send_def)

lemma fetchUsers_renders:
  assumes "case ru of
             Resolved d \<Rightarrow> nullish (data d)
                \<or> table_renders (js_or (getprop (data d) ''users'') (JArr []))
           | Rejected e \<Rightarrow> True"
    and "user_renders (user st)" and "renderable (getprop (JObj (message st)) ''text'')"
    and "table_renders (users st)"
  shows "\<not> render_throws (fetchUsers ru st)"
  using assms
  by (cases ru)
     (auto simp: fetchUsers_def Let_def render_throws_def setMessage_def send_def)

lemma mount_renders:
  assumes "ls (lit ''token'') = Some t" "t \<noteq> []" "\<not> nullish (data res)"
    and "user_renders (data res)"
    and "case ru of
           Resolved d \<Rightarrow> nullish (data d)
              \<or> table_renders (js_or (getprop (data d) ''users'') (JArr []))
         | Rejected e \<Rightarrow> True"
  shows "committed (mount (Resolved res) ru ls)"
proof -
  let ?p = "fetchProfile (Resolved res) (Dashboard ls)"
  have p: "user ?p = data res" "location ?p = lit ''/dashboard''" "users ?p = JArr []"
    "message ?p = [(''type'', JStr []), (''text'', JStr [])]" "usersLoading ?p = False"
    using assms(1-3)
    by (simp_all add: fetchProfile_def Dashboard_def Let_def getItem_def send_def)
  then have c: "committed ?p"
    using assms(4) by (simp add: committed_def render_throws_def table_renders_def)
  have "\<not> render_throws (fetchUsers ru ?p)"
    by (rule fetchUsers_renders) (simp_all add: assms p table_renders_def)
  then have "committed (fetchUsers ru ?p)"
    by (simp add: committed_def p)
  with c show ?thesis
    by (simp add: mount_def Let_def users_effect_def Dashboard_def)
qed

text \<open>
  C1. When a token is stored and the profile call resolves with a record, the page
  classifies the caller as admin exactly when \<open>is_staff\<close> or \<open>is_superuser\<close> is
  truthy on the record, and keeps that classification through every later event. When
  the record and the list of users have the shape the page can render (a username that
  is a string or absent, no object where a text is shown, a list that is an array of
  such rows), the admin panel is shown after the fetch exactly when one of the two
  flags is truthy. In every later state it is shown exactly when the page is shown and
  one of the flags is truthy.
\<close>

theorem admin_iff_flags:
  "ls (lit ''token'') = Some t \<Longrightarrow> t \<noteq> [] \<Longrightarrow> \<not> nullish (data res) \<Longrightarrow>
   (truthy (isAdmin (run es (mount (Resolved res) ru ls)))
      \<longleftrightarrow> truthy (getprop (data res) ''is_staff'') \<or> truthy (getprop (data res) ''is_superuser''))
   \<and> (user_renders (data res)
        \<and> (case ru of
              Resolved d \<Rightarrow> nullish (data d)
                 \<or> table_renders (js_or (getprop (data d) ''users'') (JArr []))
            | Rejected e \<Rightarrow> True) \<longrightarrow>
       (admin_panel_shown (mount (Resolved res) ru ls)
          \<longleftrightarrow> truthy (getprop (data res) ''is_staff'')
                \<or> truthy (getprop (data res) ''is_superuser'')))
   \<and> (admin_panel_shown (run es (mount (Resolved res) ru ls))
      \<longleftrightarrow> main_shown (run es (mount (Resolved res) ru ls))
          \<and> (truthy (getprop (data res) ''is_staff'') \<or> truthy (getprop (data res) ''is_superuser'')))"
  by (auto simp: admin_panel_shown_def main_shown_def run_isAdmin mount_fetched truthy_js_or
        mount_renders)

theorem admin_iff_flags_witness:
  "stored_tokens (lit ''token'') = Some (lit ''aaa'') \<and> lit ''aaa'' \<noteq> []
   \<and> \<not> nullish root_user \<and> \<not> nullish bob_user
   \<and> user_renders root_user \<and> user_renders bob_user
   \<and> table_renders (JArr [root_user, bob_user])
   \<and> admin_panel_shown (mount (Resolved \<lparr>data = root_user\<rparr>) user_list stored_tokens)
   \<and> \<not> admin_panel_shown (mount (Resolved \<lparr>data = bob_user\<rparr>) user_list stored_tokens)"
proof -
  have t: "stored_tokens (lit ''token'') = Some (lit ''aaa'')" "lit ''aaa'' \<noteq> []"
    by (simp_all add: stored_tokens_def lit_def)
  have r: "\<not> nullish (data \<lparr>data = root_user\<rparr>)" and b: "\<not> nullish (data \<lparr>data = bob_user\<rparr>)"
    by (simp_all add: nullish_def root_user_def bob_user_def)
  have u: "user_renders root_user" "user_renders bob_user"
    "table_renders (JArr [root_user, bob_user])"
    by code_simp+
  have l: "case user_list of
             Resolved d \<Rightarrow> nullish (data d)
                \<or> table_renders (js_or (getprop (data d) ''users'') (JArr []))
           | Rejected e \<Rightarrow> True"
    by code_simp
  have f: "truthy (getprop root_user ''is_superuser'')"
    "\<not> truthy (getprop bob_user ''is_staff'')" "\<not> truthy (getprop bob_user ''is_superuser'')"
    by code_simp+
  show ?thesis
    using admin_iff_flags [of stored_tokens "lit ''aaa''" "\<lparr>data = root_user\<rparr>" "[]" user_list]
      admin_iff_flags [of stored_tokens "lit ''aaa''" "\<lparr>data = bob_user\<rparr>" "[]" user_list]
      t r b u l f
    by simp
qed

lemma list_request_step:
  assumes "\<not> truthy (isAdmin s) \<longrightarrow> (\<forall>q. GetUsers q \<notin> set (requests s)) \<and> \<not> truthy (editingUser s)"
    and "dispatch e s = Some s'"
  shows "\<not> truthy (isAdmin s') \<longrightarrow> (\<forall>q. GetUsers q \<notin> set (requests s')) \<and> \<not> truthy (editingUser s')"
  using assms
  by (cases e)
     (auto simp: admin_panel_shown_def row_shown_def delete_button_shown_def edit_modal_shown_def
        split: if_splits option.splits)

text \<open>
  C9. In every session of the page (mounting, then any events) a \<open>getUsers\<close> request
  is sent only if the profile call resolved with a record on which \<open>is_staff\<close> or
  \<open>is_superuser\<close> is truthy.
\<close>

theorem list_request_only_for_admin:
  "GetUsers q \<in> set (requests (run es (mount rp ru ls))) \<Longrightarrow>
   \<exists>res. rp = Resolved res
     \<and> (truthy (getprop (data res) ''is_staff'') \<or> truthy (getprop (data res) ''is_superuser''))"
proof -
  assume sent: "GetUsers q \<in> set (requests (run es (mount rp ru ls)))"
  let ?J = "\<lambda>s. \<not> truthy (isAdmin s)
              \<longrightarrow> (\<forall>q. GetUsers q \<notin> set (requests s)) \<and> \<not> truthy (editingUser s)"
  have "?J (mount rp ru ls)"
    by (simp add: mount_initial)
  then have "?J (run es (mount rp ru ls))"
    by (rule run_invariant) (rule list_request_step)
  with sent have "truthy (isAdmin (mount rp ru ls))"
    by (auto simp: run_isAdmin)
  from mount_admin [OF this] show ?thesis
    using \<open>truthy (isAdmin (mount rp ru ls))\<close> by (auto simp: truthy_js_or)
qed

theorem list_request_only_for_admin_witness:
  "GetUsers [] \<in> set (requests (run promote_bob (mount (ok root_user) user_list stored_tokens)))
   \<and> (truthy (getprop root_user ''is_staff'') \<or> truthy (getprop root_user ''is_superuser''))"
proof -
  have h: "GetUsers [] \<in> set (requests (run promote_bob (mount (ok root_user) user_list stored_tokens)))"
    by code_simp
  from list_request_only_for_admin [OF h] h show ?thesis
    by (simp add: ok_def)
qed

lemma set_prop_keys:
  "k \<in> set (map fst al) \<Longrightarrow> map fst (set_prop k v al) = map fst al"
  by (simp add: set_prop_def update_keys)

lemma edit_input_names: "map_of edit_inputs n = Some ty \<Longrightarrow> n \<in> set edit_fields"
  by (auto simp: edit_inputs_def edit_fields_def split: if_splits)

lemma update_body_step:
  assumes "(truthy (editingUser s) \<longrightarrow> map fst (editForm s) = edit_fields)
           \<and> (\<forall>i body. UpdateUser i body \<in> set (requests s) \<longrightarrow> map fst body = edit_fields)"
    and "dispatch e s = Some s'"
  shows "(truthy (editingUser s') \<longrightarrow> map fst (editForm s') = edit_fields)
           \<and> (\<forall>i body. UpdateUser i body \<in> set (requests s') \<longrightarrow> map fst body = edit_fields)"
proof (cases e)
  case (ClickEdit u)
  with assms show ?thesis
    by (cases "nullish u")
       (auto simp: handleEditClick_form edit_fields_def nullish_def split: if_splits)
next
  case (ChangeEdit n v c)
  with assms show ?thesis
    by (auto simp: edit_modal_shown_def set_prop_keys dest: edit_input_names
          split: if_splits option.splits)
next
  case (SubmitEdit r1 r2)
  with assms show ?thesis
    by (auto simp: edit_modal_shown_def dest: handleEditSubmit_editing
          split: if_splits outcome.splits)
qed (use assms in \<open>auto split: if_splits outcome.splits\<close>)

text \<open>
  C8. In every session of the page, the body of every \<open>updateUser\<close> request has
  exactly the fields \<open>username\<close>, \<open>email\<close>, \<open>first_name\<close>, \<open>last_name\<close>,
  \<open>is_active\<close> and \<open>is_staff\<close>, once each and in this order; \<open>is_superuser\<close>
  is not among them.
\<close>

theorem update_request_fields:
  "UpdateUser i body \<in> set (requests (run es (mount rp ru ls))) \<Longrightarrow>
   map fst body = [''username'', ''email'', ''first_name'', ''last_name'', ''is_active'', ''is_staff'']
   \<and> ''is_superuser'' \<notin> fst ` set body"
proof -
  assume sent: "UpdateUser i body \<in> set (requests (run es (mount rp ru ls)))"
  let ?K = "\<lambda>s. (truthy (editingUser s) \<longrightarrow> map fst (editForm s) = edit_fields)
           \<and> (\<forall>i body. UpdateUser i body \<in> set (requests s) \<longrightarrow> map fst body = edit_fields)"
  have "?K (mount rp ru ls)"
    using mount_initial(2) [of rp ru ls] by (auto simp: mount_initial(1))
  then have "?K (run es (mount rp ru ls))"
    by (rule run_invariant) (rule update_body_step)
  with sent have keys: "map fst body = edit_fields"
    by blast
  then have "fst ` set body = set edit_fields"
    by (metis set_map)
  with keys show ?thesis
    by (simp add: edit_fields_def)
qed

theorem update_request_fields_witness:
  "UpdateUser (JNum 2) promoted_body
     \<in> set (requests (run promote_bob (mount (ok root_user) user_list stored_tokens)))
   \<and> map fst promoted_body
       = [''username'', ''email'', ''first_name'', ''last_name'', ''is_active'', ''is_staff'']
   \<and> ''is_superuser'' \<notin> fst ` set promoted_body"
proof -
  have h: "UpdateUser (JNum 2) promoted_body
     \<in> set (requests (run promote_bob (mount (ok root_user) user_list stored_tokens)))"
    by code_simp
  from update_request_fields [OF h] h show ?thesis
    by simp
qed

lemma delete_step:
  assumes "\<forall>i. DeleteUser i \<in> set (requests s)
             \<longrightarrow> \<not> strict_eq i (optchain (user s) ''id'') \<and> truthy (isAdmin s)"
    and "dispatch e s = Some s'"
  shows "\<forall>i. DeleteUser i \<in> set (requests s')
             \<longrightarrow> \<not> strict_eq i (optchain (user s') ''id'') \<and> truthy (isAdmin s')"
  using assms
  by (cases e)
     (auto simp: admin_panel_shown_def row_shown_def delete_button_shown_def
        split: if_splits option.splits outcome.splits)

lemma sent_by_delete:
  "DeleteUser i \<in> set (sent_by e st) \<Longrightarrow>
   \<exists>u c r1 r2. e = ClickDelete u c r1 r2 \<and> i = getprop u ''id'' \<and> delete_button_shown st u"
  by (cases e) (auto simp: sent_by_def split: if_splits option.splits outcome.splits)

text \<open>
  C2. A \<open>deleteUser\<close> request is sent only by a click on the delete button of a row
  of the table, and that row is not a superuser and its id is not that of the caller's
  profile. For a row that is a superuser or has the caller's id the button is not shown
  and a click sends nothing. In every session, no \<open>deleteUser\<close> request has the id of
  the fetched profile. Two ids are the same when \<open>===\<close> says so: the same number or
  string.
\<close>

theorem delete_request_guarded:
  "(DeleteUser i \<in> set (sent_by e st) \<longrightarrow>
      (\<exists>u c r1 r2 xs. e = ClickDelete u c r1 r2 \<and> i = getprop u ''id''
          \<and> rows st = Some xs \<and> List.member xs u
          \<and> \<not> truthy (getprop u ''is_superuser'')
          \<and> \<not> strict_eq (getprop u ''id'') (optchain (user st) ''id'')))
   \<and> (truthy (getprop target ''is_superuser'')
         \<or> strict_eq (getprop target ''id'') (optchain (user st) ''id'') \<longrightarrow>
        \<not> delete_button_shown st target \<and> sent_by (ClickDelete target answer d1 d2) st = [])
   \<and> (DeleteUser j \<in> set (requests (run es (mount rp ru ls))) \<longrightarrow>
        (\<exists>res. rp = Resolved res \<and> \<not> strict_eq j (getprop (data res) ''id'')))"
proof (intro conjI impI)
  assume "DeleteUser i \<in> set (sent_by e st)"
  from sent_by_delete [OF this]
  show "\<exists>u c r1 r2 xs. e = ClickDelete u c r1 r2 \<and> i = getprop u ''id''
          \<and> rows st = Some xs \<and> List.member xs u
          \<and> \<not> truthy (getprop u ''is_superuser'')
          \<and> \<not> strict_eq (getprop u ''id'') (optchain (user st) ''id'')"
    by (auto simp: delete_button_shown_def row_shown_def split: option.splits)
next
  assume "truthy (getprop target ''is_superuser'')
            \<or> strict_eq (getprop target ''id'') (optchain (user st) ''id'')"
  then show "\<not> delete_button_shown st target"
    by (auto simp: delete_button_shown_def)
  then show "sent_by (ClickDelete target answer d1 d2) st = []"
    by (simp add: sent_by_def)
next
  assume sent: "DeleteUser j \<in> set (requests (run es (mount rp ru ls)))"
  let ?D = "\<lambda>s. \<forall>i. DeleteUser i \<in> set (requests s)
              \<longrightarrow> \<not> strict_eq i (optchain (user s) ''id'') \<and> truthy (isAdmin s)"
  have "?D (mount rp ru ls)"
    using mount_initial(2) [of rp ru ls] by auto
  then have "?D (run es (mount rp ru ls))"
    by (rule run_invariant) (rule delete_step)
  with sent have j: "\<not> strict_eq j (optchain (user (mount rp ru ls)) ''id'')"
    and a: "truthy (isAdmin (mount rp ru ls))"
    by (auto simp: run_isAdmin run_user)
  from mount_admin [OF a] j
  show "\<exists>res. rp = Resolved res \<and> \<not> strict_eq j (getprop (data res) ''id'')"
    by (auto simp: optchain_def)
qed

theorem delete_request_guarded_witness:
  "DeleteUser (JNum 2) \<in> set (sent_by delete_bob root_session)
   \<and> rows root_session = Some [root_user, bob_user]
   \<and> \<not> truthy (getprop bob_user ''is_superuser'')
   \<and> \<not> strict_eq (getprop bob_user ''id'') (optchain (user root_session) ''id'')
   \<and> truthy (getprop root_user ''is_superuser'')
   \<and> strict_eq (getprop root_user ''id'') (optchain (user root_session) ''id'')
   \<and> \<not> delete_button_shown root_session root_user
   \<and> sent_by (ClickDelete root_user True (ok JNull) user_list) root_session = []
   \<and> DeleteUser (JNum 2)
       \<in> set (requests (run [delete_bob] (mount (ok root_user) user_list stored_tokens)))
   \<and> \<not> strict_eq (JNum 2) (getprop root_user ''id'')"
proof -
  have h1: "DeleteUser (JNum 2) \<in> set (sent_by delete_bob root_session)"
    by code_simp
  have h2: "truthy (getprop root_user ''is_superuser'')"
    "strict_eq (getprop root_user ''id'') (optchain (user root_session) ''id'')"
    by code_simp+
  have h3: "DeleteUser (JNum 2)
       \<in> set (requests (run [delete_bob] (mount (ok root_user) user_list stored_tokens)))"
    by code_simp
  have r: "rows root_session = Some [root_user, bob_user]"
    by code_simp
  show ?thesis
    using delete_request_guarded [where i = "JNum 2" and e = delete_bob and st = root_session
        and target = root_user and answer = True and ?d1.0 = "ok JNull" and ?d2.0 = user_list
        and j = "JNum 2" and es = "[delete_bob]" and rp = "ok root_user" and ru = user_list
        and ls = stored_tokens]
      h1 h2 h3 r
    by (auto simp: delete_bob_def ok_def)
qed

section \<open>The stored tokens\<close>




end
